theory Spec2Isabelle
  imports Complex_Main "HOL-Library.AList"
begin


section \<open>Python strings and dictionaries used by the pipeline code\<close>

text \<open>
  \<^verbatim>\<open>s.split(c)\<close> for a one-character separator: every occurrence of the separator ends
  a segment, empty segments are kept, and the empty string gives one empty segment.
  The first branch of the inner case is never taken, since the result is never empty.
\<close>

fun py_split :: "char \<Rightarrow> string \<Rightarrow> string list" where
  "py_split c [] = [[]]"
| "py_split c (x # xs) =
     (if x = c then [] # py_split c xs
      else (case py_split c xs of [] \<Rightarrow> [[x]] | y # ys \<Rightarrow> (x # y) # ys))"

text \<open>
  \<^verbatim>\<open>s.split(c, 1)\<close>: at most one split, at the first occurrence of the separator.
  Without the separator the result is the one-element list \<^verbatim>\<open>[s]\<close>.
\<close>

definition py_split_max1 :: "char \<Rightarrow> string \<Rightarrow> string list" where
  "py_split_max1 c s =
     (case dropWhile (\<lambda>x. x \<noteq> c) s of
        [] \<Rightarrow> [s]
      | _ # rest \<Rightarrow> [takeWhile (\<lambda>x. x \<noteq> c) s, rest])"

text \<open>\<^verbatim>\<open>sep.join(xs)\<close>.\<close>

fun str_join :: "string \<Rightarrow> string list \<Rightarrow> string" where
  "str_join sep [] = []"
| "str_join sep [x] = x"
| "str_join sep (x # y # ys) = x @ sep @ str_join sep (y # ys)"

text \<open>\<^verbatim>\<open>"{}".format(v)\<close> for a value that is a string or \<^verbatim>\<open>None\<close>.\<close>

fun py_format :: "string option \<Rightarrow> string" where
  "py_format None = ''None''"
| "py_format (Some s) = s"

definition newline :: char where
  "newline = CHR 0x0A"

text \<open>
  The exceptions \<^verbatim>\<open>write_acquisition_parameters\<close> can raise on the data of an image,
  one constructor for each place that raises:
  \<^item> \<open>BytesSplitError\<close>: \<^verbatim>\<open>TypeError\<close> of \<^verbatim>\<open>split\<close> on a byte string with the text
    separator \<^verbatim>\<open>";"\<close>, "a bytes-like object is required, not 'str'";
  \<^item> \<open>TupleIndexError\<close>: \<^verbatim>\<open>IndexError\<close> of \<^verbatim>\<open>image.shape[-1]\<close> on an empty shape;
  \<^item> \<open>DictUpdateError i n\<close>: \<^verbatim>\<open>ValueError\<close> of \<^verbatim>\<open>dict(...)\<close>, "dictionary update
    sequence element #i has length n; 2 is required";
  \<^item> \<open>UnexpectedPhaseDir msg\<close>: the \<^verbatim>\<open>ValueError(msg)\<close> raised for the phase direction;
  \<^item> \<open>CouldNotConvertFloat s\<close>: \<^verbatim>\<open>ValueError\<close> of \<^verbatim>\<open>float(s)\<close>;
  \<^item> \<open>MissingKey k\<close>: \<^verbatim>\<open>KeyError\<close> of \<^verbatim>\<open>descrip[k]\<close>.
\<close>

datatype error =
    BytesSplitError
  | TupleIndexError
  | DictUpdateError nat nat
  | UnexpectedPhaseDir string
  | CouldNotConvertFloat string
  | MissingKey string

datatype py_exception = TypeError | IndexError | ValueError | KeyError

fun exception_class :: "error \<Rightarrow> py_exception" where
  "exception_class BytesSplitError = TypeError"
| "exception_class TupleIndexError = IndexError"
| "exception_class (DictUpdateError i n) = ValueError"
| "exception_class (UnexpectedPhaseDir msg) = ValueError"
| "exception_class (CouldNotConvertFloat s) = ValueError"
| "exception_class (MissingKey k) = KeyError"

text \<open>
  \<^verbatim>\<open>dict(pairs)\<close> on a list of lists: the elements are taken in order, an element
  that has not exactly two items raises, a later key replaces an earlier one.
  \<open>i\<close> is the index of the next element.
\<close>

fun py_dict :: "nat \<Rightarrow> string list list \<Rightarrow> (string \<rightharpoonup> string) \<Rightarrow> error + (string \<rightharpoonup> string)" where
  "py_dict i [] m = Inr m"
| "py_dict i (e # es) m =
     (case e of
        [k, v] \<Rightarrow> py_dict (Suc i) es (m(k \<mapsto> v))
      | _ \<Rightarrow> Inl (DictUpdateError i (length e)))"

section \<open>dti.py: the acquisition parameters\<close>

text \<open>
  The value of \<^verbatim>\<open>header["descrip"][()]\<close>: a byte string or a text string. The
  \<^verbatim>\<open>descrip\<close> field of a NIfTI header is an array of bytes, and on Python 3
  \<^verbatim>\<open>nibabel\<close> hands it over as a byte string.
\<close>

datatype header_value = Bytes string | Text string

text \<open>
  Line 128 of \<^verbatim>\<open>dti.py\<close>:
  \<^verbatim>\<open>dict([item.split("=", 1) for item in header["descrip"][()].split(";")])\<close>.
  The separators are text strings: on a byte string the first \<^verbatim>\<open>split\<close> raises.
\<close>

definition descrip_items :: "string \<Rightarrow> string list list" where
  "descrip_items s = map (py_split_max1 CHR ''='') (py_split CHR '';'' s)"

fun descrip_dict :: "header_value \<Rightarrow> error + (string \<rightharpoonup> string)" where
  "descrip_dict (Bytes b) = Inl BytesSplitError"
| "descrip_dict (Text s) = py_dict 0 (descrip_items s) Map.empty"

text \<open>
  What the function reads of the image that \<^verbatim>\<open>nibabel.load\<close> returns: its shape and
  the \<^verbatim>\<open>descrip\<close> field of its header.
\<close>

record image =
  shape :: "nat list"
  header_descrip :: header_value

text \<open>
  Python's floating-point numbers are a parameter of the model: the conversion
  \<^verbatim>\<open>float(s)\<close> (\<open>None\<close> when it raises), the conversion of an integer operand, the
  product, the literal \<^verbatim>\<open>1e-3\<close> and the text \<^verbatim>\<open>"{}".format(x)\<close>. So is
  \<^verbatim>\<open>os.path.abspath\<close>, which depends on the working directory.
\<close>

record 'f runtime =
  py_float :: "string \<Rightarrow> 'f option"
  float_of_int :: "int \<Rightarrow> 'f"
  float_mul :: "'f \<Rightarrow> 'f \<Rightarrow> 'f"
  float_1e_3 :: "'f"
  float_format :: "'f \<Rightarrow> string"
  abspath :: "string \<Rightarrow> string"

text \<open>The files of the working directory: file name to contents.\<close>

type_synonym files = "string \<rightharpoonup> string"

text \<open>
  \<^verbatim>\<open>write_acquisition_parameters(in_file)\<close>, lines 122 to 147, on the loaded image.
  The result is the returned pair of paths or the exception raised, with the files
  as the call leaves them.
\<close>

definition write_acquisition_parameters ::
  "'f runtime \<Rightarrow> image \<Rightarrow> files \<Rightarrow> (error + string \<times> string) \<times> files" where
  "write_acquisition_parameters rt img fs =
     (let acqp_file = ''diff.acqp''; index_file = ''diff.index'' in
      case shape img of
        [] \<Rightarrow> (Inl TupleIndexError, fs)
      | _ # _ \<Rightarrow>
        let n_directions = last (shape img) in
        case descrip_dict (header_descrip img) of
          Inl e \<Rightarrow> (Inl e, fs)
        | Inr descrip \<Rightarrow>
          (case (if descrip ''phaseDir'' = Some ''+'' then Inr ''0 1 0''
                 else if descrip ''phaseDir'' = Some ''-'' then Inr ''0 -1 0''
                 else Inl (UnexpectedPhaseDir
                        (''unexpected value for phaseDir: '' @ py_format (descrip ''phaseDir'')))) of
             Inl e \<Rightarrow> (Inl e, fs)
           | Inr pe_axis \<Rightarrow>
             let epi_factor = (128 :: int) in
             (case descrip ''dwell'' of
                None \<Rightarrow> (Inl (MissingKey ''dwell''), fs)
              | Some d \<Rightarrow>
                (case py_float rt d of
                   None \<Rightarrow> (Inl (CouldNotConvertFloat d), fs)
                 | Some dwell \<Rightarrow>
                   let total_readout_time =
                         float_mul rt (float_mul rt (float_of_int rt (epi_factor - 1)) dwell)
                           (float_1e_3 rt);
                       fs1 = fs(acqp_file \<mapsto>
                               pe_axis @ '' '' @ float_format rt total_readout_time @ [newline]);
                       fs2 = fs1(index_file \<mapsto>
                               str_join '' '' (replicate n_directions ''1'') @ [newline])
                   in (Inr (abspath rt acqp_file, abspath rt index_file), fs2)))))"

text \<open>
  A runtime for evaluating examples: exact rational arithmetic in place of the
  floating-point numbers, with a conversion that knows two numerals and a
  formatting that gives what Python prints for their two products.
\<close>

definition example_runtime :: "rat runtime" where
  "example_runtime =
     \<lparr> py_float = (\<lambda>s. if s = ''0.39'' then Some (39 / 100)
                       else if s = ''0.75'' then Some (3 / 4) else None),
       float_of_int = rat_of_int,
       float_mul = (\<lambda>a b. a * b),
       float_1e_3 = 1 / 1000,
       float_format = (\<lambda>x. if x = 4953 / 100000 then ''0.049530000000000005''
                           else if x = 381 / 4000 then ''0.09525'' else ''?''),
       abspath = (\<lambda>p. ''/work/'' @ p) \<rparr>"



section \<open>run.py: handing the workflow to the execution engine\<close>

text \<open>
  The call of \<^verbatim>\<open>wf.run\<close> that \<^verbatim>\<open>run_wf\<close> makes, with its arguments:
  \<^item> \<open>Run\<close>: \<^verbatim>\<open>wf.run()\<close>;
  \<^item> \<open>RunMultiProc n\<close>: \<^verbatim>\<open>wf.run("MultiProc", plugin_args={"n_procs": n})\<close>;
  \<^item> \<open>RunPlugin p kw\<close>: \<^verbatim>\<open>wf.run(plugin=p, **kw)\<close>.
\<close>

datatype 'kw wf_run = Run | RunMultiProc int | RunPlugin string 'kw

text \<open>
  \<^verbatim>\<open>run_wf(wf, plugin, n_cpus, **plugin_kwargs)\<close>, lines 111 to 116. The plugin is a
  string or \<^verbatim>\<open>None\<close>; \<^verbatim>\<open>not plugin\<close> holds for \<^verbatim>\<open>None\<close> and for the empty string.
  The last branch is reached with a plugin only.
\<close>

definition run_wf :: "string option \<Rightarrow> int \<Rightarrow> 'kw \<Rightarrow> 'kw wf_run" where
  "run_wf plugin n_cpus plugin_kwargs =
     (if plugin = Some ''MultiProc'' \<and> n_cpus > 1 then RunMultiProc n_cpus
      else if (plugin = None \<or> plugin = Some []) \<or> plugin = None \<or> n_cpus \<le> 1 then Run
      else (case plugin of Some p \<Rightarrow> RunPlugin p plugin_kwargs | None \<Rightarrow> Run))"

section \<open>The nipype workflows the code builds\<close>

text \<open>
  The Python values the code passes to the interfaces, \<open>PyUndefined\<close> being the
  \<^verbatim>\<open>Undefined\<close> of the traits library and \<open>PyFunction f\<close> the function named \<open>f\<close>.
\<close>

datatype pyval =
    PyNone
  | PyUndefined
  | PyBool bool
  | PyInt int
  | PyStr string
  | PyList "pyval list"
  | PyDict "(string \<times> pyval) list"
  | PyFunction string

text \<open>An interface object: its class and the inputs the code gives it.\<close>

datatype interface = Interface (iface_class: string) (iface_inputs: "(string \<times> pyval) list")

text \<open>
  The source end of a connection: an output name, or the pair of an output name and
  a function applied to the value on its way, as in
  \<^verbatim>\<open>(("out", flatten_list), "apply_to_files")\<close>.
\<close>

datatype out_port = Out string | OutFn string string

text \<open>
  A node of the engine (\<^verbatim>\<open>pe.Node\<close>), with its name, its interface and its
  iterables, or a workflow (\<^verbatim>\<open>pe.Workflow\<close>), with its name, its base directory, the
  nodes of its graph and the edges of its graph. An edge holds its two nodes, as the
  connection tuples of the code do. An iterable is a field name with its list of
  values, \<open>None\<close> where the code passes \<^verbatim>\<open>None\<close>.
\<close>

datatype wf_node =
    Node (name: string) (node_interface: interface)
      (iterables: "(string \<times> string list option) list")
  | Workflow (name: string) (workflow_base_dir: "string option") (graph_nodes: "wf_node list")
      (graph_edges: "(wf_node \<times> out_port \<times> wf_node \<times> string) list")

type_synonym connection = "wf_node \<times> wf_node \<times> (out_port \<times> string) list"

text \<open>
  The graph that \<^verbatim>\<open>wf.connect(connection_list)\<close> builds when the engine accepts
  the connections: the two nodes of every connection that are not yet nodes of the
  graph itself are added to it, then one edge for every pair of ports. The engine's
  checks of the names and the ports are not in the sources and are no part of this
  function; the workflows below that use it connect nodes they have just made.
\<close>

definition add_node :: "wf_node \<Rightarrow> wf_node list \<Rightarrow> wf_node list" where
  "add_node n ns = (if n \<in> set ns then ns else ns @ [n])"

fun connect :: "wf_node \<Rightarrow> connection list \<Rightarrow> wf_node" where
  "connect (Workflow nm bd ns es) connection_list =
     Workflow nm bd
       (foldl (\<lambda>acc (srcnode, destnode, connects). add_node destnode (add_node srcnode acc))
          ns connection_list)
       (es @ concat (map (\<lambda>(srcnode, destnode, connects).
                            map (\<lambda>(source, dest). (srcnode, source, destnode, dest)) connects)
                      connection_list))"
| "connect (Node nm iface its) connection_list = Node nm iface its"

text \<open>The class of the interface of a node; a workflow has none.\<close>

fun node_class :: "wf_node \<Rightarrow> string option" where
  "node_class (Node nm iface its) = Some (iface_class iface)"
| "node_class (Workflow nm bd ns es) = None"

text \<open>\<^verbatim>\<open>node.inputs.key = v\<close>.\<close>

fun set_input :: "string \<Rightarrow> pyval \<Rightarrow> wf_node \<Rightarrow> wf_node" where
  "set_input key v (Node nm (Interface cls inputs) its) =
     Node nm (Interface cls (AList.update key v inputs)) its"
| "set_input key v (Workflow nm bd ns es) = Workflow nm bd ns es"

text \<open>\<^verbatim>\<open>node.inputs.key\<close>, \<^verbatim>\<open>Undefined\<close> for an input that was never set.\<close>

fun get_input :: "string \<Rightarrow> wf_node \<Rightarrow> pyval" where
  "get_input key (Node nm (Interface cls inputs) its) =
     (case map_of inputs key of None \<Rightarrow> PyUndefined | Some v \<Rightarrow> v)"
| "get_input key (Workflow nm bd ns es) = PyUndefined"


subsection \<open>input_files.py\<close>

text \<open>\<^verbatim>\<open>os.path.basename\<close>: the text after the last slash.\<close>

definition basename :: "string \<Rightarrow> string" where
  "basename p = last (py_split CHR ''/'' p)"

text \<open>
  What \<^verbatim>\<open>input_files.py\<close> and \<^verbatim>\<open>run.py\<close> use and the sources do not hold, as
  parameters: the helpers \<^verbatim>\<open>_check_list\<close>, \<^verbatim>\<open>remove_ext\<close> and \<^verbatim>\<open>extend_trait_list\<close>,
  and the directory listing \<^verbatim>\<open>os.listdir\<close>.
\<close>

record helpers =
  check_list :: "string list option \<Rightarrow> string list option"
  remove_ext :: "string \<Rightarrow> string"
  listdir :: "string \<Rightarrow> string list"
  extend_trait_list :: "pyval \<Rightarrow> (string \<times> string) list \<Rightarrow> pyval"

text \<open>\<^verbatim>\<open>input_file_wf\<close>, lines 95 to 109.\<close>

definition input_file_wf ::
  "string \<Rightarrow> string \<Rightarrow> (string \<times> string list option) list \<Rightarrow> (string \<times> string) list \<Rightarrow>
   string \<Rightarrow> wf_node" where
  "input_file_wf work_dir data_dir field_iterables file_templates wf_name =
     (let w = Workflow wf_name (Some work_dir) [] [];
          field_names = map fst field_iterables;
          infosource = Node ''infosrc''
            (Interface ''IdentityInterface'' [(''fields'', PyList (map PyStr field_names))])
            field_iterables;
          select = Node ''select''
            (Interface ''SelectFiles''
               [(''templates'', PyDict (map (\<lambda>(k, v). (k, PyStr v)) file_templates)),
                (''base_directory'', PyStr data_dir)])
            []
      in connect w [(infosource, select, map (\<lambda>field. (Out field, field)) field_names)])"

text \<open>
  \<^verbatim>\<open>subject_session_input\<close>, lines 48 to 63. The dictionary of the file templates is
  built pair by pair, a later file replacing an earlier one with the same key.
\<close>

definition subject_session_input ::
  "helpers \<Rightarrow> string \<Rightarrow> string list option \<Rightarrow> string list \<Rightarrow> string list option \<Rightarrow>
   string \<Rightarrow> wf_node" where
  "subject_session_input h base_dir session_names file_names subject_ids wf_name =
     (let subj_ids = (case check_list h subject_ids of
                        None \<Rightarrow> map basename (listdir h base_dir)
                      | Some ids \<Rightarrow> ids);
          fields = [(''session_id'', session_names), (''subject_id'', Some subj_ids)];
          files = foldl (\<lambda>d f. AList.update (remove_ext h (basename f))
                                  (''{subject_id}/{session_id}/'' @ f) d) [] file_names
      in input_file_wf base_dir base_dir fields files wf_name)"

subsection \<open>run.py: the workflow with the inputs and the sink\<close>

text \<open>
  Modelled from the spec: \<^verbatim>\<open>joinpaths\<close> of the package's \<^verbatim>\<open>utils\<close> module is not in
  the sources. It gives the interface of the \<^verbatim>\<open>joinpath\<close> node, with the inputs
  \<^verbatim>\<open>arg1\<close> and \<^verbatim>\<open>arg2\<close> and the output \<^verbatim>\<open>out\<close>.
\<close>

definition joinpaths :: interface where
  "joinpaths = Interface ''joinpaths'' []"

text \<open>
  Modelled from the spec: the output \<^verbatim>\<open>out\<close> of \<^verbatim>\<open>joinpaths\<close>, the two identifiers
  joined as a sub-path, the first above the second.
\<close>

definition joinpaths_out :: "string \<Rightarrow> string \<Rightarrow> string" where
  "joinpaths_out arg1 arg2 = arg1 @ ''/'' @ arg2"

text \<open>\<^verbatim>\<open>in_out_workflow\<close>, lines 53 to 89.\<close>

definition in_out_workflow ::
  "helpers \<Rightarrow> string \<Rightarrow> string \<Rightarrow> string \<Rightarrow> string list \<Rightarrow> string list option \<Rightarrow>
   string list option \<Rightarrow> string \<Rightarrow> string \<Rightarrow> wf_node" where
  "in_out_workflow h work_dir data_dir output_dir file_names session_names subject_ids
       input_wf_name wf_name =
     (let main_wf = Workflow wf_name (Some work_dir) [] [];
          datasink = Node ''datasink''
            (Interface ''DataSink''
               [(''parameterization'', PyBool False), (''base_directory'', PyStr output_dir)])
            [];
          input_wf = subject_session_input h data_dir session_names file_names subject_ids
                       input_wf_name;
          substitutions = [(''_subject_id'', '''')] @
            (if session_names \<noteq> None then [(''_session_id_'', '''')] else []);
          datasink = set_input ''substitutions''
            (extend_trait_list h (get_input ''substitutions'' datasink) substitutions) datasink
      in if session_names = None
         then connect main_wf
                [(input_wf, datasink, [(Out ''infosrc.subject_id'', ''container'')])]
         else
           let joinpath = Node ''joinpath'' joinpaths [] in
           connect main_wf
             [(input_wf, joinpath, [(Out ''infosrc.subject_id'', ''arg1''),
                                    (Out ''infosrc.session_id'', ''arg2'')]),
              (joinpath, datasink, [(Out ''out'', ''container'')])])"

subsection \<open>The execution engine\<close>

text \<open>
  Modelled from the spec: the expansion of the iterables is the work of the execution
  engine, which is not in the sources. The axes combine by cross product; each
  combination, a value for every axis, is one instance.
\<close>

fun expand_axes :: "(string \<times> string list) list \<Rightarrow> (string \<times> string) list list" where
  "expand_axes [] = [[]]"
| "expand_axes ((field, vals) # axes) =
     concat (map (\<lambda>v. map (\<lambda>inst. (field, v) # inst) (expand_axes axes)) vals)"

text \<open>
  Modelled from the spec: the namespace of an instance is derived from its
  identifier tuple, here the field names and values in the order of the axes.
\<close>

definition instance_namespace :: "(string \<times> string) list \<Rightarrow> string" where
  "instance_namespace inst = concat (map (\<lambda>(field, v). ''_'' @ field @ ''_'' @ v) inst)"

text \<open>
  Modelled from the spec: the engine expands the iterables of the nodes of the graph
  at any depth. These are the nodes that are no workflows, the iterables they carry,
  and the axes the iterables give when every one has a list of values; an iterable
  that is \<^verbatim>\<open>None\<close> gives no axes.
\<close>

fun all_nodes :: "wf_node \<Rightarrow> wf_node list" where
  "all_nodes (Node nm iface its) = [Node nm iface its]"
| "all_nodes (Workflow nm bd ns es) = concat (map all_nodes ns)"

definition iteration_fields :: "wf_node \<Rightarrow> (string \<times> string list option) list" where
  "iteration_fields w = concat (map iterables (all_nodes w))"

fun axes_of :: "(string \<times> string list option) list \<Rightarrow> (string \<times> string list) list option" where
  "axes_of [] = Some []"
| "axes_of ((field, None) # rest) = None"
| "axes_of ((field, Some vals) # rest) =
     (case axes_of rest of None \<Rightarrow> None | Some axes \<Rightarrow> Some ((field, vals) # axes))"

text \<open>
  Modelled from the spec: the source node and output that feed an input of a node,
  when exactly one edge arrives there and applies no function on the way.
\<close>

definition feeding_edge ::
  "(wf_node \<times> out_port \<times> wf_node \<times> string) list \<Rightarrow> wf_node \<Rightarrow> string \<Rightarrow>
   (wf_node \<times> string) option" where
  "feeding_edge es destnode dest =
     (case filter (\<lambda>(s, sp, d, dp). d = destnode \<and> dp = dest) es of
        [(s, Out sp, d, dp)] \<Rightarrow> Some (s, sp)
      | _ \<Rightarrow> None)"

text \<open>
  Modelled from the spec: the value that leaves a node through an output, for one
  instance. An output of a nested workflow, \<^verbatim>\<open>node.output\<close>, is the output of its
  node of that name. A field of an identity node that is among its iterables has the
  value of the instance. The output \<^verbatim>\<open>out\<close> of a \<^verbatim>\<open>joinpaths\<close> node joins the values that
  arrive at \<^verbatim>\<open>arg1\<close> and \<^verbatim>\<open>arg2\<close>. The first argument bounds the depth of the search.
\<close>

fun out_value ::
  "nat \<Rightarrow> (wf_node \<times> out_port \<times> wf_node \<times> string) list \<Rightarrow> (string \<times> string) list \<Rightarrow>
   wf_node \<Rightarrow> string \<Rightarrow> string option" where
  "out_value 0 es inst n port = None"
| "out_value (Suc k) es inst (Workflow nm bd ns es') port =
     (case py_split_max1 CHR ''.'' port of
        [inner, p] \<Rightarrow>
          (case find (\<lambda>x. name x = inner) ns of
             None \<Rightarrow> None
           | Some n \<Rightarrow> out_value k es' inst n p)
      | _ \<Rightarrow> None)"
| "out_value (Suc k) es inst (Node nm iface its) port =
     (if iface_class iface = ''IdentityInterface''
      then (if port \<in> fst ` set its then map_of inst port else None)
      else if iface = joinpaths \<and> port = ''out''
      then (case (feeding_edge es (Node nm iface its) ''arg1'',
                  feeding_edge es (Node nm iface its) ''arg2'') of
              (Some (s1, p1), Some (s2, p2)) \<Rightarrow>
                (case (out_value k es inst s1 p1, out_value k es inst s2 p2) of
                   (Some a, Some b) \<Rightarrow> Some (joinpaths_out a b)
                 | _ \<Rightarrow> None)
            | _ \<Rightarrow> None)
      else None)"

text \<open>
  Modelled from the spec: the storage container the sink receives for an instance,
  the value that arrives at the input \<^verbatim>\<open>container\<close> of the node of class
  \<^verbatim>\<open>DataSink\<close>.
\<close>

definition sink_container :: "nat \<Rightarrow> wf_node \<Rightarrow> (string \<times> string) list \<Rightarrow> string option" where
  "sink_container k w inst =
     (case filter (\<lambda>(s, sp, d, dp). node_class d = Some ''DataSink'' \<and> dp = ''container'')
             (graph_edges w) of
        [(s, Out sp, d, dp)] \<Rightarrow> out_value k (graph_edges w) inst s sp
      | _ \<Rightarrow> None)"

subsection \<open>dti.py: the diffusion workflow and its attachment\<close>



text \<open>
  The errors of an attachment: the failure of the discovery of a node by its role,
  a destination port that already has an incoming edge, a name that \<^verbatim>\<open>get_node\<close>
  does not find (it returns \<^verbatim>\<open>None\<close>, which the code hands to \<^verbatim>\<open>connect\<close> as a
  node, and \<^verbatim>\<open>connect\<close> raises on it), and any other error of the anatomical
  attachment or of the engine.
\<close>

datatype wf_error =
    UnresolvedBoundaryPortError
  | PortAlreadyConnectedError
  | NodeNotFound string
  | OtherError string








text \<open>
  Helpers for evaluating examples, and a stand-in for the anatomical attachment: it
  connects the file selection to an anatomical workflow of two nodes.
\<close>

definition example_helpers :: helpers where
  "example_helpers =
     \<lparr> check_list = (\<lambda>ids. ids),
       remove_ext = takeWhile (\<lambda>c. c \<noteq> CHR ''.''),
       listdir = (\<lambda>d. [''S1'', ''S2'']),
       extend_trait_list = (\<lambda>old new. PyList (map (\<lambda>(a, b). PyList [PyStr a, PyStr b]) new)) \<rparr>"






section \<open>Facts about splitting, joining and \<open>dict\<close>\<close>

lemma py_split_not_Nil: "py_split c s \<noteq> []"
  by (induction s) (auto split: list.splits)






lemma str_join_ones_split:
  "py_split CHR '' '' (str_join '' '' (replicate (Suc n) ''1'')) = replicate (Suc n) ''1''"
  by (induction n) simp_all

lemma str_join_ones_chars:
  "set (str_join '' '' (replicate n ''1'')) \<subseteq> {CHR ''1'', CHR '' ''}"
proof (induction n)
  case 0
  then show ?case by simp
next
  case (Suc n)
  then show ?case by (cases n) auto
qed





lemmas parse_eval = descrip_dict.simps descrip_items_def py_split_max1_def

lemmas wap_eval = write_acquisition_parameters_def parse_eval example_runtime_def
  newline_def Let_def

section \<open>What the function does once the annotation is parsed\<close>

text \<open>
  The header annotation parses for a text string only. From there on the function
  checks the phase direction, converts the dwell time and writes the two files.
\<close>

lemma parsed_acqp_line:
  assumes "shape img \<noteq> []"
    and "descrip_dict (header_descrip img) = Inr m"
    and "m ''phaseDir'' = Some pd" and "pd = ''+'' \<or> pd = ''-''"
    and "m ''dwell'' = Some d" and "py_float rt d = Some dwell"
  shows "\<exists>fs'. write_acquisition_parameters rt img fs =
             (Inr (abspath rt ''diff.acqp'', abspath rt ''diff.index''), fs') \<and>
           fs' ''diff.acqp'' =
             Some (str_join '' ''
                    [''0'', if pd = ''+'' then ''1'' else ''-1'', ''0'',
                     float_format rt
                       (float_mul rt (float_mul rt (float_of_int rt (128 - 1)) dwell)
                          (float_1e_3 rt))] @ [newline])"
  using assms
  by (auto simp: write_acquisition_parameters_def Let_def split: list.splits)

lemma returned_index_line:
  assumes "write_acquisition_parameters rt img fs = (Inr r, fs')"
  shows "fs' ''diff.index'' =
           Some (str_join '' '' (replicate (last (shape img)) ''1'') @ [newline]) \<and>
         filter (\<lambda>w. w \<noteq> [])
           (py_split CHR '' '' (str_join '' '' (replicate (last (shape img)) ''1''))) =
           replicate (last (shape img)) ''1'' \<and>
         newline \<notin> set (str_join '' '' (replicate (last (shape img)) ''1'')) \<and>
         (0 < last (shape img) \<longrightarrow>
            py_split CHR '' '' (str_join '' '' (replicate (last (shape img)) ''1'')) =
            replicate (last (shape img)) ''1'')"
proof -
  let ?n = "last (shape img)"
  have written: "fs' ''diff.index'' = Some (str_join '' '' (replicate ?n ''1'') @ [newline])"
    using assms
    by (auto simp: write_acquisition_parameters_def Let_def
        split: list.splits sum.splits option.splits if_splits)
  have splits: "0 < ?n \<longrightarrow>
      py_split CHR '' '' (str_join '' '' (replicate ?n ''1'')) = replicate ?n ''1''"
    using str_join_ones_split [of "?n - 1"] by (cases ?n) auto
  have toks: "filter (\<lambda>w. w \<noteq> [])
      (py_split CHR '' '' (str_join '' '' (replicate ?n ''1''))) = replicate ?n ''1''"
  proof (cases ?n)
    case 0
    then show ?thesis by simp
  next
    case (Suc k)
    then show ?thesis using splits by simp
  qed
  have nl: "newline \<notin> set (str_join '' '' (replicate ?n ''1''))"
    using str_join_ones_chars [of ?n] by (auto simp: newline_def)
  from written splits toks nl show ?thesis by blast
qed

lemma parsed_unexpected_phaseDir:
  assumes "shape img \<noteq> []"
    and "descrip_dict (header_descrip img) = Inr m"
    and "m ''phaseDir'' \<noteq> Some ''+''" and "m ''phaseDir'' \<noteq> Some ''-''"
  shows "write_acquisition_parameters rt img fs =
           (Inl (UnexpectedPhaseDir
                  (''unexpected value for phaseDir: '' @ py_format (m ''phaseDir''))), fs) \<and>
         exception_class (UnexpectedPhaseDir
                  (''unexpected value for phaseDir: '' @ py_format (m ''phaseDir''))) = ValueError"
  using assms
  by (auto simp: write_acquisition_parameters_def Let_def split: list.splits)

lemma parsed_unparseable_dwell:
  assumes "shape img \<noteq> []"
    and "descrip_dict (header_descrip img) = Inr m"
    and "m ''phaseDir'' = Some ''+'' \<or> m ''phaseDir'' = Some ''-''"
    and "m ''dwell'' = Some d" and "py_float rt d = None"
  shows "write_acquisition_parameters rt img fs = (Inl (CouldNotConvertFloat d), fs) \<and>
         exception_class (CouldNotConvertFloat d) = ValueError"
  using assms
  by (auto simp: write_acquisition_parameters_def Let_def split: list.splits)

section \<open>Facts about the expansion and the workflows\<close>

lemma expand_axes_length:
  "length (expand_axes axes) = prod_list (map (\<lambda>(f, vals). length vals) axes)"
proof (induction axes)
  case Nil
  then show ?case by simp
next
  case (Cons a axes)
  obtain f vals where a: "a = (f, vals)" by (cases a)
  have "length (concat (map (\<lambda>v. map (\<lambda>inst. (f, v) # inst) (expand_axes axes)) vals)) =
        length vals * length (expand_axes axes)"
    by (induction vals) simp_all
  then show ?case using Cons by (simp add: a)
qed

lemma expand_axes_empty:
  "(f, []) \<in> set axes \<Longrightarrow> expand_axes axes = []"
proof (induction axes)
  case Nil
  then show ?case by simp
next
  case (Cons a axes)
  obtain g vals where a: "a = (g, vals)" by (cases a)
  show ?case
  proof (cases "a = (f, [])")
    case True
    then show ?thesis by simp
  next
    case False
    with Cons have "expand_axes axes = []" by simp
    then show ?thesis by (simp add: a)
  qed
qed

lemma iteration_fields_input_file_wf:
  "iteration_fields (input_file_wf work_dir data_dir field_iterables file_templates wf_name) =
   field_iterables"
  by (simp add: iteration_fields_def input_file_wf_def Let_def add_node_def)

lemma append_sep_inject:
  "xs @ c # ys = xs' @ c # ys' \<Longrightarrow> c \<notin> set xs \<Longrightarrow> c \<notin> set xs' \<Longrightarrow>
   xs = xs' \<and> ys = ys'"
proof (induction xs arbitrary: xs')
  case Nil
  then show ?case by (cases xs') auto
next
  case (Cons x xs)
  then show ?case by (cases xs') auto
qed

lemmas wf_eval = in_out_workflow_def subject_session_input_def input_file_wf_def Let_def
  add_node_def sink_container_def feeding_edge_def joinpaths_def joinpaths_out_def
  py_split_max1_def

text \<open>
  The workflow of \<^verbatim>\<open>in_out_workflow\<close> with a list of sessions: its two iterables, the
  form of the instances of their expansion, and the container of an instance.
\<close>

lemma expand_two_axes:
  "inst \<in> set (expand_axes [(f1, vs1), (f2, vs2)]) \<Longrightarrow>
   \<exists>v1 \<in> set vs1. \<exists>v2 \<in> set vs2. inst = [(f1, v1), (f2, v2)]"
  by auto

lemma iteration_fields_in_out_workflow:
  "iteration_fields
     (in_out_workflow h work_dir data_dir output_dir file_names (Some session_names)
        subject_ids input_wf_name wf_name) =
   [(''session_id'', Some session_names),
    (''subject_id'', Some (case check_list h subject_ids of
                            None \<Rightarrow> map basename (listdir h data_dir)
                          | Some ids \<Rightarrow> ids))]"
  by (simp add: iteration_fields_def wf_eval)

lemma sink_container_two:
  "map_of inst ''subject_id'' = Some subject \<Longrightarrow> map_of inst ''session_id'' = Some session \<Longrightarrow>
   sink_container (Suc (Suc (Suc k)))
     (in_out_workflow h work_dir data_dir output_dir file_names (Some session_names)
        subject_ids input_wf_name wf_name) inst =
   Some (joinpaths_out subject session)"
  by (simp add: wf_eval)

lemma instance_container:
  assumes a: "axes_of (iteration_fields
       (in_out_workflow h work_dir data_dir output_dir file_names (Some session_names)
          subject_ids input_wf_name wf_name)) = Some axes"
    and i: "inst \<in> set (expand_axes axes)"
  shows "\<exists>subject session.
       inst = [(''session_id'', session), (''subject_id'', subject)] \<and>
       session \<in> set session_names \<and>
       sink_container (k + 3)
         (in_out_workflow h work_dir data_dir output_dir file_names (Some session_names)
            subject_ids input_wf_name wf_name) inst =
       Some (subject @ ''/'' @ session)"
proof -
  let ?subj = "case check_list h subject_ids of
                 None \<Rightarrow> map basename (listdir h data_dir) | Some ids \<Rightarrow> ids"
  have "axes = [(''session_id'', session_names), (''subject_id'', ?subj)]"
    using a unfolding iteration_fields_in_out_workflow by simp
  with i obtain session subject where s: "session \<in> set session_names"
    and e: "inst = [(''session_id'', session), (''subject_id'', subject)]"
    using expand_two_axes [of inst "''session_id''" session_names "''subject_id''" ?subj]
    by blast
  have m: "map_of inst ''subject_id'' = Some subject" "map_of inst ''session_id'' = Some session"
    unfolding e by simp_all
  have k: "k + 3 = Suc (Suc (Suc k))" by simp
  have "sink_container (k + 3)
         (in_out_workflow h work_dir data_dir output_dir file_names (Some session_names)
            subject_ids input_wf_name wf_name) inst =
       Some (subject @ ''/'' @ session)"
    unfolding k using sink_container_two [OF m] by (simp add: joinpaths_out_def)
  with s e show ?thesis by blast
qed

text \<open>
  Built with no session, the workflow feeds the container from the subject
  identifier of \<^verbatim>\<open>infosrc\<close>; the iterable of \<^verbatim>\<open>session_id\<close> is then \<^verbatim>\<open>None\<close>, which
  gives no axis to expand.
\<close>

lemma no_session_no_axes:
  "axes_of (iteration_fields
     (in_out_workflow h work_dir data_dir output_dir file_names None
        subject_ids input_wf_name wf_name)) = None"
  by (simp add: iteration_fields_def wf_eval)

lemma no_session_edges:
  "map (\<lambda>(s, sp, d, dp). (name s, sp, node_class d, dp))
     (graph_edges (in_out_workflow h work_dir data_dir output_dir file_names None
        subject_ids input_wf_name wf_name)) =
   [(input_wf_name, Out ''infosrc.subject_id'', Some ''DataSink'', ''container'')]"
  by (simp add: wf_eval)

section \<open>Facts about the discovery by role and the attachment\<close>







section \<open>The acquisition parameters: claims\<close>

text \<open>
  Claim C1. The image of the specification's example, 30 volumes with the annotation
  \<^verbatim>\<open>phaseDir=+;dwell=0.39\<close>, as \<^verbatim>\<open>nibabel\<close> loads it: the annotation is a byte
  string, splitting it at the text \<^verbatim>\<open>";"\<close> raises \<^verbatim>\<open>TypeError\<close>, and no
  acquisition-parameters file is written, whatever the floating-point numbers are.
\<close>

theorem C1_bytes_annotation_raises:
  "write_acquisition_parameters rt
     \<lparr>shape = [96, 96, 50, 30], header_descrip = Bytes ''phaseDir=+;dwell=0.39''\<rparr>
     Map.empty = (Inl BytesSplitError, Map.empty) \<and>
   exception_class BytesSplitError = TypeError"
  by (simp add: write_acquisition_parameters_def)


text \<open>
  Claim C3. An image whose annotation has the phase direction \<^verbatim>\<open>x\<close>, as \<^verbatim>\<open>nibabel\<close>
  loads it: the call raises the \<^verbatim>\<open>TypeError\<close> of the split, not the \<^verbatim>\<open>ValueError\<close>
  that names the phase direction.
\<close>

theorem C3_bytes_annotation_other_error:
  "write_acquisition_parameters rt
     \<lparr>shape = [96, 96, 50, 30], header_descrip = Bytes ''dwell=0.39;phaseDir=x''\<rparr>
     Map.empty = (Inl BytesSplitError, Map.empty) \<and>
   BytesSplitError \<noteq> UnexpectedPhaseDir ''unexpected value for phaseDir: x'' \<and>
   exception_class BytesSplitError \<noteq> ValueError"
  by (simp add: write_acquisition_parameters_def)




text \<open>
  Claim C8. An image whose annotation has a dwell time that is no number, as
  \<^verbatim>\<open>nibabel\<close> loads it: the call raises the \<^verbatim>\<open>TypeError\<close> of the split, and the
  conversion of the dwell time is never reached.
\<close>

theorem C8_bytes_annotation_other_error:
  "write_acquisition_parameters rt
     \<lparr>shape = [96, 96, 50, 30], header_descrip = Bytes ''phaseDir=+;dwell=fast''\<rparr>
     Map.empty = (Inl BytesSplitError, Map.empty) \<and>
   BytesSplitError \<noteq> CouldNotConvertFloat ''fast''"
  by (simp add: write_acquisition_parameters_def)

text \<open>
  Claim C9. A call that raises leaves every file as it was. And each data fault
  makes the call raise with the files unchanged: a header annotation that does not
  parse, a \<^verbatim>\<open>phaseDir\<close> that is absent or unsupported, a \<^verbatim>\<open>dwell\<close> that is absent or
  that \<^verbatim>\<open>float\<close> refuses.
\<close>

theorem C9_failure_writes_no_file:
  "(fst (write_acquisition_parameters rt img fs) = Inl e \<longrightarrow>
      snd (write_acquisition_parameters rt img fs) = fs) \<and>
   ((descrip_dict (header_descrip img) = Inl e' \<or>
     (\<exists>m. descrip_dict (header_descrip img) = Inr m \<and>
        ((m ''phaseDir'' \<noteq> Some ''+'' \<and> m ''phaseDir'' \<noteq> Some ''-'') \<or>
         m ''dwell'' = None \<or>
         (\<exists>d. m ''dwell'' = Some d \<and> py_float rt d = None)))) \<longrightarrow>
      (\<exists>err. write_acquisition_parameters rt img fs = (Inl err, fs)))"
  by (auto simp: write_acquisition_parameters_def Let_def
      split: list.splits sum.splits option.splits if_splits)

text \<open>
  Failing calls on a directory that already holds \<^verbatim>\<open>diff.acqp\<close> leave it alone: one
  on a byte-string annotation, one on a text annotation whose dwell time is no
  number.
\<close>

theorem C9_failure_writes_no_file_witness:
  "write_acquisition_parameters example_runtime
     \<lparr>shape = [96, 96, 50, 30], header_descrip = Bytes ''phaseDir=+;dwell=0.39''\<rparr>
     [''diff.acqp'' \<mapsto> ''old''] =
   (Inl BytesSplitError, [''diff.acqp'' \<mapsto> ''old'']) \<and>
   write_acquisition_parameters example_runtime
     \<lparr>shape = [96, 96, 50, 30], header_descrip = Text ''phaseDir=+;dwell=fast''\<rparr>
     [''diff.acqp'' \<mapsto> ''old''] =
   (Inl (CouldNotConvertFloat ''fast''), [''diff.acqp'' \<mapsto> ''old''])"
  using C9_failure_writes_no_file [of example_runtime
      "\<lparr>shape = [96, 96, 50, 30], header_descrip = Bytes ''phaseDir=+;dwell=0.39''\<rparr>"
      "[''diff.acqp'' \<mapsto> ''old'']" BytesSplitError BytesSplitError]
    C9_failure_writes_no_file [of example_runtime
      "\<lparr>shape = [96, 96, 50, 30], header_descrip = Text ''phaseDir=+;dwell=fast''\<rparr>"
      "[''diff.acqp'' \<mapsto> ''old'']" "CouldNotConvertFloat ''fast''" TupleIndexError]
  by (simp add: wap_eval)

section \<open>Running the workflow: claims\<close>

text \<open>
  Claim C10, as amended. With \<open>n_cpus \<le> 1\<close> every plugin gives the plain
  \<^verbatim>\<open>wf.run()\<close>. The multi-process call, with \<open>n_cpus\<close> as \<^verbatim>\<open>n_procs\<close>, is made exactly
  when the plugin is \<^verbatim>\<open>"MultiProc"\<close> and \<open>n_cpus > 1\<close>. Any other non-empty plugin
  with \<open>n_cpus > 1\<close> is run by its name with its keyword arguments. An empty or
  absent plugin gives the plain \<^verbatim>\<open>wf.run()\<close> for every \<open>n_cpus\<close>.
\<close>

theorem C10_run_wf_paths:
  "(n_cpus \<le> 1 \<longrightarrow> run_wf plugin n_cpus kw = Run) \<and>
   ((\<exists>n. run_wf plugin n_cpus kw = RunMultiProc n) \<longleftrightarrow>
      plugin = Some ''MultiProc'' \<and> n_cpus > 1) \<and>
   (plugin = Some ''MultiProc'' \<and> n_cpus > 1 \<longrightarrow>
      run_wf plugin n_cpus kw = RunMultiProc n_cpus) \<and>
   (plugin = Some p \<and> p \<noteq> ''MultiProc'' \<and> p \<noteq> [] \<and> n_cpus > 1 \<longrightarrow>
      run_wf plugin n_cpus kw = RunPlugin p kw) \<and>
   (plugin = None \<or> plugin = Some [] \<longrightarrow> run_wf plugin n_cpus kw = Run)"
  by (auto simp: run_wf_def)

text \<open>The four paths on concrete calls.\<close>

theorem C10_run_wf_paths_witness:
  "run_wf (Some ''MultiProc'') 1 [(''memory_gb'', 4 :: int)] = Run \<and>
   run_wf (Some ''MultiProc'') 4 [(''memory_gb'', 4 :: int)] = RunMultiProc 4 \<and>
   run_wf (Some ''SGE'') 4 [(''memory_gb'', 4 :: int)] = RunPlugin ''SGE'' [(''memory_gb'', 4)] \<and>
   run_wf None 4 [(''memory_gb'', 4 :: int)] = Run"
  using C10_run_wf_paths [of 1 "Some ''MultiProc''" "[(''memory_gb'', 4 :: int)]" "''SGE''"]
    C10_run_wf_paths [of 4 "Some ''MultiProc''" "[(''memory_gb'', 4 :: int)]" "''SGE''"]
    C10_run_wf_paths [of 4 "Some ''SGE''" "[(''memory_gb'', 4 :: int)]" "''SGE''"]
    C10_run_wf_paths [of 4 None "[(''memory_gb'', 4 :: int)]" "''SGE''"]
  by simp

text \<open>
  Claim C10 as stated fails for the empty plugin name: it is another plugin than
  \<^verbatim>\<open>"MultiProc"\<close>, \<open>n_cpus\<close> is 2, and the workflow is run plainly, not with the
  plugin and its keyword arguments.
\<close>

theorem C10_empty_plugin_counterexample:
  "run_wf (Some '''') 2 [(''memory_gb'', 4 :: int)] = Run \<and>
   run_wf (Some '''') 2 [(''memory_gb'', 4 :: int)] \<noteq> RunPlugin '''' [(''memory_gb'', 4)] \<and>
   '''' \<noteq> ''MultiProc'' \<and> (2 :: int) > 1"
  by (simp add: run_wf_def)

section \<open>Iteration, the sink and the attachment: claims\<close>

text \<open>
  Claim C6. The input workflow that \<^verbatim>\<open>subject_session_input\<close> builds for the
  sessions \<^verbatim>\<open>["s0"]\<close> and the subjects \<^verbatim>\<open>["S1", "S2"]\<close> carries the two axes as the
  iterables of its \<^verbatim>\<open>infosrc\<close> node; their expansion has exactly 2 instances, one per
  element of the cross product, with different namespaces. For every list of axes
  the number of instances is the product of the numbers of values, and an axis with
  no value gives the empty list of instances, which is a result and not an error.
\<close>

theorem C6_iteration_expansion:
  "(check_list h (Some [''S1'', ''S2'']) = Some [''S1'', ''S2''] \<longrightarrow>
      axes_of (iteration_fields
                 (subject_session_input h base_dir (Some [''s0'']) file_names
                    (Some [''S1'', ''S2'']) wf_name)) =
        Some [(''session_id'', [''s0'']), (''subject_id'', [''S1'', ''S2''])]) \<and>
   expand_axes [(''session_id'', [''s0'']), (''subject_id'', [''S1'', ''S2''])] =
     [[(''session_id'', ''s0''), (''subject_id'', ''S1'')],
      [(''session_id'', ''s0''), (''subject_id'', ''S2'')]] \<and>
   length (expand_axes [(''session_id'', [''s0'']), (''subject_id'', [''S1'', ''S2''])]) = 2 \<and>
   distinct (map instance_namespace
     (expand_axes [(''session_id'', [''s0'']), (''subject_id'', [''S1'', ''S2''])])) \<and>
   iteration_fields (input_file_wf work_dir data_dir field_iterables file_templates name') =
     field_iterables \<and>
   length (expand_axes axes) = prod_list (map (\<lambda>(f, vals). length vals) axes) \<and>
   ((\<exists>f. (f, []) \<in> set axes) \<longrightarrow> expand_axes axes = [] \<and> length (expand_axes axes) = 0)"
proof -
  have a: "check_list h (Some [''S1'', ''S2'']) = Some [''S1'', ''S2''] \<longrightarrow>
      axes_of (iteration_fields
                 (subject_session_input h base_dir (Some [''s0'']) file_names
                    (Some [''S1'', ''S2'']) wf_name)) =
        Some [(''session_id'', [''s0'']), (''subject_id'', [''S1'', ''S2''])]"
    by (simp add: subject_session_input_def Let_def iteration_fields_input_file_wf)
  have b: "expand_axes [(''session_id'', [''s0'']), (''subject_id'', [''S1'', ''S2''])] =
     [[(''session_id'', ''s0''), (''subject_id'', ''S1'')],
      [(''session_id'', ''s0''), (''subject_id'', ''S2'')]]"
    by simp
  have c: "distinct (map instance_namespace
     (expand_axes [(''session_id'', [''s0'']), (''subject_id'', [''S1'', ''S2''])]))"
    unfolding b by (simp add: instance_namespace_def)
  have d: "(\<exists>f. (f, []) \<in> set axes) \<longrightarrow>
      expand_axes axes = [] \<and> length (expand_axes axes) = 0"
    using expand_axes_empty by auto
  show ?thesis
    using a b c d iteration_fields_input_file_wf expand_axes_length
    by (simp del: expand_axes.simps)
qed

text \<open>The two axes of the example, and an empty axis of subjects.\<close>

theorem C6_iteration_expansion_witness:
  "axes_of (iteration_fields
      (subject_session_input example_helpers ''/data'' (Some [''s0'']) [''anat.nii.gz'']
         (Some [''S1'', ''S2'']) ''input_files'')) =
     Some [(''session_id'', [''s0'']), (''subject_id'', [''S1'', ''S2''])] \<and>
   expand_axes [(''session_id'', [''s0'']), (''subject_id'', [])] = []"
  using C6_iteration_expansion [of example_helpers "''/data''" "[''anat.nii.gz'']"
      "''input_files''" "''/data''" "''/data''" "[]" "[]" "''input_files''"
      "[(''session_id'', [''s0'']), (''subject_id'', [])]"]
  by (simp add: example_helpers_def)

text \<open>
  Claim C7. In the workflow that \<^verbatim>\<open>in_out_workflow\<close> builds with a list of sessions,
  every instance of the expansion of its iterables is a session identifier with a
  subject identifier, and the value that arrives at the input \<^verbatim>\<open>container\<close> of the
  sink for that instance is the subject identifier joined with the session
  identifier as a sub-path, subject first. Two instances whose subject identifiers
  hold no slash and that get the same container are the same instance. Built with
  no session, the workflow has one edge, from the output \<^verbatim>\<open>infosrc.subject_id\<close> of
  the input workflow to the input \<^verbatim>\<open>container\<close> of the sink.
\<close>

theorem C7_sink_container:
  "(axes_of (iteration_fields
       (in_out_workflow h work_dir data_dir output_dir file_names (Some session_names)
          subject_ids input_wf_name wf_name)) = Some axes \<and>
    inst \<in> set (expand_axes axes) \<longrightarrow>
      (\<exists>subject session.
         inst = [(''session_id'', session), (''subject_id'', subject)] \<and>
         session \<in> set session_names \<and>
         sink_container (k + 3)
           (in_out_workflow h work_dir data_dir output_dir file_names (Some session_names)
              subject_ids input_wf_name wf_name) inst =
         Some (subject @ ''/'' @ session))) \<and>
   (axes_of (iteration_fields
       (in_out_workflow h work_dir data_dir output_dir file_names (Some session_names)
          subject_ids input_wf_name wf_name)) = Some axes \<and>
    inst \<in> set (expand_axes axes) \<and> inst' \<in> set (expand_axes axes) \<and>
    map_of inst ''subject_id'' = Some subject \<and> CHR ''/'' \<notin> set subject \<and>
    map_of inst' ''subject_id'' = Some subject' \<and> CHR ''/'' \<notin> set subject' \<and>
    sink_container (k + 3)
      (in_out_workflow h work_dir data_dir output_dir file_names (Some session_names)
         subject_ids input_wf_name wf_name) inst =
    sink_container (k + 3)
      (in_out_workflow h work_dir data_dir output_dir file_names (Some session_names)
         subject_ids input_wf_name wf_name) inst' \<longrightarrow>
      inst = inst') \<and>
   map (\<lambda>(s, sp, d, dp). (name s, sp, node_class d, dp))
     (graph_edges (in_out_workflow h work_dir data_dir output_dir file_names None
        subject_ids input_wf_name wf_name)) =
   [(input_wf_name, Out ''infosrc.subject_id'', Some ''DataSink'', ''container'')]"
proof (intro conjI impI)
  assume "axes_of (iteration_fields
       (in_out_workflow h work_dir data_dir output_dir file_names (Some session_names)
          subject_ids input_wf_name wf_name)) = Some axes \<and>
    inst \<in> set (expand_axes axes)"
  then show "\<exists>subject session.
         inst = [(''session_id'', session), (''subject_id'', subject)] \<and>
         session \<in> set session_names \<and>
         sink_container (k + 3)
           (in_out_workflow h work_dir data_dir output_dir file_names (Some session_names)
              subject_ids input_wf_name wf_name) inst =
         Some (subject @ ''/'' @ session)"
    using instance_container by blast
next
  let ?W = "in_out_workflow h work_dir data_dir output_dir file_names (Some session_names)
          subject_ids input_wf_name wf_name"
  assume h: "axes_of (iteration_fields ?W) = Some axes \<and>
    inst \<in> set (expand_axes axes) \<and> inst' \<in> set (expand_axes axes) \<and>
    map_of inst ''subject_id'' = Some subject \<and> CHR ''/'' \<notin> set subject \<and>
    map_of inst' ''subject_id'' = Some subject' \<and> CHR ''/'' \<notin> set subject' \<and>
    sink_container (k + 3) ?W inst = sink_container (k + 3) ?W inst'"
  then have a: "axes_of (iteration_fields ?W) = Some axes"
    and i: "inst \<in> set (expand_axes axes)" and i': "inst' \<in> set (expand_axes axes)"
    and m: "map_of inst ''subject_id'' = Some subject"
    and m': "map_of inst' ''subject_id'' = Some subject'"
    and n: "CHR ''/'' \<notin> set subject" and n': "CHR ''/'' \<notin> set subject'"
    and c: "sink_container (k + 3) ?W inst = sink_container (k + 3) ?W inst'"
    by simp_all
  obtain u s where e: "inst = [(''session_id'', s), (''subject_id'', u)]"
    and v: "sink_container (k + 3) ?W inst = Some (u @ ''/'' @ s)"
    using instance_container [OF a i, of k] by blast
  obtain u' s' where e': "inst' = [(''session_id'', s'), (''subject_id'', u')]"
    and v': "sink_container (k + 3) ?W inst' = Some (u' @ ''/'' @ s')"
    using instance_container [OF a i', of k] by blast
  from m e have u: "u = subject" by simp
  from m' e' have u': "u' = subject'" by simp
  from c v v' have q: "subject @ CHR ''/'' # s = subject' @ CHR ''/'' # s'"
    unfolding u u' by simp
  have "subject = subject' \<and> s = s'"
    by (rule append_sep_inject [OF q n n'])
  then show "inst = inst'" unfolding e e' u u' by simp
next
  show "map (\<lambda>(s, sp, d, dp). (name s, sp, node_class d, dp))
     (graph_edges (in_out_workflow h work_dir data_dir output_dir file_names None
        subject_ids input_wf_name wf_name)) =
   [(input_wf_name, Out ''infosrc.subject_id'', Some ''DataSink'', ''container'')]"
    by (rule no_session_edges)
qed

text \<open>
  Subject \<^verbatim>\<open>S1\<close> in session \<^verbatim>\<open>s0\<close> is stored under \<^verbatim>\<open>S1/s0\<close>, apart from subject
  \<^verbatim>\<open>S2\<close> in the same session.
\<close>

theorem C7_sink_container_witness:
  "axes_of (iteration_fields
     (in_out_workflow example_helpers ''/work'' ''/data'' ''/out'' [''anat.nii.gz'']
        (Some [''s0'']) (Some [''S1'', ''S2'']) ''input_files'' ''main_workflow'')) =
     Some [(''session_id'', [''s0'']), (''subject_id'', [''S1'', ''S2''])] \<and>
   expand_axes [(''session_id'', [''s0'']), (''subject_id'', [''S1'', ''S2''])] =
     [[(''session_id'', ''s0''), (''subject_id'', ''S1'')],
      [(''session_id'', ''s0''), (''subject_id'', ''S2'')]] \<and>
   sink_container 3
     (in_out_workflow example_helpers ''/work'' ''/data'' ''/out'' [''anat.nii.gz'']
        (Some [''s0'']) (Some [''S1'', ''S2'']) ''input_files'' ''main_workflow'')
     [(''session_id'', ''s0''), (''subject_id'', ''S1'')] = Some ''S1/s0'' \<and>
   sink_container 3
     (in_out_workflow example_helpers ''/work'' ''/data'' ''/out'' [''anat.nii.gz'']
        (Some [''s0'']) (Some [''S1'', ''S2'']) ''input_files'' ''main_workflow'')
     [(''session_id'', ''s0''), (''subject_id'', ''S1'')] \<noteq>
   sink_container 3
     (in_out_workflow example_helpers ''/work'' ''/data'' ''/out'' [''anat.nii.gz'']
        (Some [''s0'']) (Some [''S1'', ''S2'']) ''input_files'' ''main_workflow'')
     [(''session_id'', ''s0''), (''subject_id'', ''S2'')]"
proof -
  let ?W = "in_out_workflow example_helpers ''/work'' ''/data'' ''/out'' [''anat.nii.gz'']
        (Some [''s0'']) (Some [''S1'', ''S2'']) ''input_files'' ''main_workflow''"
  let ?axes = "[(''session_id'', [''s0'']), (''subject_id'', [''S1'', ''S2''])]"
  let ?i1 = "[(''session_id'', ''s0''), (''subject_id'', ''S1'')]"
  let ?i2 = "[(''session_id'', ''s0''), (''subject_id'', ''S2'')]"
  have a: "axes_of (iteration_fields ?W) = Some ?axes"
    by (simp add: iteration_fields_in_out_workflow example_helpers_def)
  have x: "expand_axes ?axes = [?i1, ?i2]"
    by simp
  have i1: "?i1 \<in> set (expand_axes ?axes)" and i2: "?i2 \<in> set (expand_axes ?axes)"
    unfolding x by simp_all
  have m1: "map_of ?i1 ''subject_id'' = Some ''S1''" and m2: "map_of ?i2 ''subject_id'' = Some ''S2''"
    by simp_all
  have n1: "CHR ''/'' \<notin> set ''S1''" and n2: "CHR ''/'' \<notin> set ''S2''"
    by simp_all
  have d: "?i1 \<noteq> ?i2"
    by simp
  note t = C7_sink_container [of example_helpers "''/work''" "''/data''" "''/out''"
      "[''anat.nii.gz'']" "[''s0'']" "Some [''S1'', ''S2'']" "''input_files''"
      "''main_workflow''" ?axes ?i1 0 ?i2 "''S1''" "''S2''", unfolded add_0]
  from t a i1 have c: "sink_container 3 ?W ?i1 = Some ''S1/s0''"
    by simp
  from t a i1 i2 m1 m2 n1 n2 d have e: "sink_container 3 ?W ?i1 \<noteq> sink_container 3 ?W ?i2"
    by blast
  from a x c e show ?thesis
    by (simp only: simp_thms)
qed

text \<open>
  The sub-paths of different instances are not always distinct: with the subjects
  \<^verbatim>\<open>a\<close> and \<^verbatim>\<open>a/b\<close> and the sessions \<^verbatim>\<open>b/c\<close> and \<^verbatim>\<open>c\<close>, the instance of subject
  \<^verbatim>\<open>a\<close> in session \<^verbatim>\<open>b/c\<close> and the instance of subject \<^verbatim>\<open>a/b\<close> in session \<^verbatim>\<open>c\<close>
  both get the container \<^verbatim>\<open>a/b/c\<close>.
\<close>

theorem C7_subpath_collision_counterexample:
  "axes_of (iteration_fields
     (in_out_workflow example_helpers ''/work'' ''/data'' ''/out'' [''anat.nii.gz'']
        (Some [''b/c'', ''c'']) (Some [''a'', ''a/b'']) ''input_files'' ''main_workflow'')) =
     Some [(''session_id'', [''b/c'', ''c'']), (''subject_id'', [''a'', ''a/b''])] \<and>
   expand_axes [(''session_id'', [''b/c'', ''c'']), (''subject_id'', [''a'', ''a/b''])] =
     [[(''session_id'', ''b/c''), (''subject_id'', ''a'')],
      [(''session_id'', ''b/c''), (''subject_id'', ''a/b'')],
      [(''session_id'', ''c''), (''subject_id'', ''a'')],
      [(''session_id'', ''c''), (''subject_id'', ''a/b'')]] \<and>
   sink_container 3
     (in_out_workflow example_helpers ''/work'' ''/data'' ''/out'' [''anat.nii.gz'']
        (Some [''b/c'', ''c'']) (Some [''a'', ''a/b'']) ''input_files'' ''main_workflow'')
     [(''session_id'', ''b/c''), (''subject_id'', ''a'')] = Some ''a/b/c'' \<and>
   sink_container 3
     (in_out_workflow example_helpers ''/work'' ''/data'' ''/out'' [''anat.nii.gz'']
        (Some [''b/c'', ''c'']) (Some [''a'', ''a/b'']) ''input_files'' ''main_workflow'')
     [(''session_id'', ''c''), (''subject_id'', ''a/b'')] = Some ''a/b/c''"
proof -
  let ?W = "in_out_workflow example_helpers ''/work'' ''/data'' ''/out'' [''anat.nii.gz'']
        (Some [''b/c'', ''c'']) (Some [''a'', ''a/b'']) ''input_files'' ''main_workflow''"
  have a: "axes_of (iteration_fields ?W) =
     Some [(''session_id'', [''b/c'', ''c'']), (''subject_id'', [''a'', ''a/b''])]"
    by (simp add: iteration_fields_in_out_workflow example_helpers_def)
  have x: "expand_axes [(''session_id'', [''b/c'', ''c'']), (''subject_id'', [''a'', ''a/b''])] =
     [[(''session_id'', ''b/c''), (''subject_id'', ''a'')],
      [(''session_id'', ''b/c''), (''subject_id'', ''a/b'')],
      [(''session_id'', ''c''), (''subject_id'', ''a'')],
      [(''session_id'', ''c''), (''subject_id'', ''a/b'')]]"
    by simp
  have c1: "sink_container 3 ?W [(''session_id'', ''b/c''), (''subject_id'', ''a'')] =
      Some ''a/b/c''"
    by (simp add: wf_eval numeral_3_eq_3)
  have c2: "sink_container 3 ?W [(''session_id'', ''c''), (''subject_id'', ''a/b'')] =
      Some ''a/b/c''"
    by (simp add: wf_eval numeral_3_eq_3)
  from a x c1 c2 show ?thesis
    by (simp only: simp_thms)
qed




end
